theory Spec2Isabelle
  imports Complex_Main
begin

section \<open>Playback synchronisation (RoomVideoPlayer.tsx, VideoPlayer.tsx)\<close>

text \<open>
  JavaScript numbers (playback positions in seconds) are modelled as reals, and the
  value of \<^verbatim>\<open>Date.now()\<close> (milliseconds) as an integer. Rounding of doubles is not
  modelled; every comparison below is the one the source writes.
\<close>

definition SEEK_THRESHOLD :: real where
  "SEEK_THRESHOLD = 0.6"

definition UPDATE_THROTTLE_MS :: int where
  "UPDATE_THROTTLE_MS = 1500"

text \<open>
  The payload of a \<^verbatim>\<open>playback-update\<close> event. The local handlers emit exactly these four
  fields. The inbound handler takes \<^verbatim>\<open>update: any\<close> and destructures
  \<^verbatim>\<open>is_playing\<close>, \<^verbatim>\<open>playback_time\<close> and \<^verbatim>\<open>video_url\<close>; it is therefore
  defined on every extension of this record, and reads nothing of the extension.
\<close>

record playback_msg =
  roomId :: string
  video_url :: "string option"
  is_playing :: bool
  playback_time :: real

text \<open>
  An inbound payload that also carries an origin tag (the message format of the
  specification, \<^verbatim>\<open>{is_playing, playback_time, video_url, originId}\<close>).
\<close>

record tagged_msg = playback_msg +
  originId :: string

text \<open>
  The control surface that VideoPlayer registers (\<^verbatim>\<open>VideoPlayerControls\<close>). RoomVideoPlayer
  keeps it in a ref typed \<^verbatim>\<open>any\<close> and tests each member with
  \<^verbatim>\<open>typeof ... === "function"\<close> before calling it, so the record says which members are
  functions. \<^verbatim>\<open>exposeControls\<close> of VideoPlayer always builds all three.
\<close>

record controls =
  has_seekTo :: bool
  has_getCurrentTime :: bool
  has_setPlaying :: bool

definition exposeControls :: controls where
  "exposeControls = \<lparr>has_seekTo = True, has_getCurrentTime = True, has_setPlaying = True\<rparr>"

text \<open>
  What VideoPlayer holds behind the control surface. \<^verbatim>\<open>html5Ref\<close> is the \<^verbatim>\<open><video>\<close>
  element, rendered only when the URL is not a YouTube URL. \<^verbatim>\<open>playerRef\<close> is the
  \<^verbatim>\<open>YT.Player\<close> object, created once the YouTube API has loaded; VideoPlayer tests each
  of its methods before calling it (\<^verbatim>\<open>playerRef.current?.seekTo\<close>,
  \<^verbatim>\<open>playVideo?.()\<close>), and \<open>yt_ready\<close> says that these methods exist. Either ref may be
  null: with a YouTube URL and the API still loading both are. \<open>isPlayingState\<close> is the
  React state \<^verbatim>\<open>isPlaying\<close> of VideoPlayer.
\<close>

record media =
  currentTime :: real
  paused :: bool

record yt_player =
  yt_ready :: bool
  yt_media :: media

record video_player =
  playerRef :: "yt_player option"
  html5Ref :: "media option"
  isPlayingState :: bool

text \<open>\<^verbatim>\<open>playerRef.current?.seekTo\<close>, \<^verbatim>\<open>playerRef.current?.getCurrentTime\<close>: a usable method.\<close>

definition yt_method :: "video_player \<Rightarrow> bool" where
  "yt_method v = (case playerRef v of None \<Rightarrow> False | Some y \<Rightarrow> yt_ready y)"

text \<open>
  The three members that \<^verbatim>\<open>exposeControls\<close> of VideoPlayer builds (lines 98-119), on the
  state they act on. \<open>vp_seekTo\<close> seeks the YouTube player if it has the method, else
  the \<^verbatim>\<open><video>\<close> if there is one, else nothing. \<open>vp_getCurrentTime\<close> falls back to
  \<^verbatim>\<open>html5Ref.current?.currentTime || 0\<close>. \<open>vp_setPlaying\<close> takes the YouTube branch
  whenever \<^verbatim>\<open>playerRef.current\<close> is not null, where \<^verbatim>\<open>playVideo?.()\<close> does nothing
  without the method, and always sets \<^verbatim>\<open>isPlaying\<close>. Both setters also raise
  \<^verbatim>\<open>suppressLocalRef\<close> for 500 ms, which mutes VideoPlayer's own state-change callback;
  that timer is not part of the model.
\<close>

definition vp_seekTo :: "real \<Rightarrow> video_player \<Rightarrow> video_player" where
  "vp_seekTo t v =
    (if yt_method v
     then v\<lparr>playerRef :=
            map_option (\<lambda>y. y\<lparr>yt_media := (yt_media y)\<lparr>currentTime := t\<rparr>\<rparr>) (playerRef v)\<rparr>
     else v\<lparr>html5Ref := map_option (\<lambda>m. m\<lparr>currentTime := t\<rparr>) (html5Ref v)\<rparr>)"

definition vp_getCurrentTime :: "video_player \<Rightarrow> real" where
  "vp_getCurrentTime v =
    (if yt_method v
     then (case playerRef v of None \<Rightarrow> 0 | Some y \<Rightarrow> currentTime (yt_media y))
     else (case html5Ref v of None \<Rightarrow> 0 | Some m \<Rightarrow> currentTime m))"

definition vp_setPlaying :: "bool \<Rightarrow> video_player \<Rightarrow> video_player" where
  "vp_setPlaying play v =
    (let v1 =
       (if playerRef v \<noteq> None
        then (if yt_method v
              then v\<lparr>playerRef :=
                     map_option (\<lambda>y. y\<lparr>yt_media := (yt_media y)\<lparr>paused := \<not> play\<rparr>\<rparr>)
                       (playerRef v)\<rparr>
              else v)
        else v\<lparr>html5Ref := map_option (\<lambda>m. m\<lparr>paused := \<not> play\<rparr>) (html5Ref v)\<rparr>)
     in v1\<lparr>isPlayingState := play\<rparr>)"

datatype call = SeekTo real | SetPlaying bool

text \<open>
  The refs and props of one RoomVideoPlayer, the VideoPlayer its control surface
  drives, and two logs: the calls made on the control surface and the payloads emitted
  on the socket, oldest first.
\<close>

record room =
  lastSentRef :: int
  pendingSeekRef :: "real option"
  playerControlRef :: "controls option"
  propRoomId :: string
  youtubeUrl :: "string option"
  initialYoutubeUrl :: "string option"
  propUserId :: "string option"
  player :: video_player
  calls :: "call list"
  emitted :: "playback_msg list"

text \<open>
  A call of \<^verbatim>\<open>seekTo\<close> or \<^verbatim>\<open>setPlaying\<close> through the control surface: the call is
  logged and acts on the VideoPlayer.
\<close>

definition ctl_seekTo :: "real \<Rightarrow> room \<Rightarrow> room" where
  "ctl_seekTo t s = s\<lparr>player := vp_seekTo t (player s), calls := calls s @ [SeekTo t]\<rparr>"

definition ctl_setPlaying :: "bool \<Rightarrow> room \<Rightarrow> room" where
  "ctl_setPlaying play s =
    s\<lparr>player := vp_setPlaying play (player s), calls := calls s @ [SetPlaying play]\<rparr>"

text \<open>\<^verbatim>\<open>playerControlRef.current?.seekTo\<close> and its siblings: is the member a function?\<close>

definition can_seekTo :: "controls option \<Rightarrow> bool" where
  "can_seekTo c = (case c of None \<Rightarrow> False | Some k \<Rightarrow> has_seekTo k)"

definition can_getCurrentTime :: "controls option \<Rightarrow> bool" where
  "can_getCurrentTime c = (case c of None \<Rightarrow> False | Some k \<Rightarrow> has_getCurrentTime k)"

definition can_setPlaying :: "controls option \<Rightarrow> bool" where
  "can_setPlaying c = (case c of None \<Rightarrow> False | Some k \<Rightarrow> has_setPlaying k)"

text \<open>The handler of inbound \<^verbatim>\<open>playback-update\<close> events (RoomVideoPlayer, lines 46-65).\<close>

definition on_playback_update :: "'a playback_msg_scheme \<Rightarrow> room \<Rightarrow> room" where
  "on_playback_update update s =
    (let expectedTime = playback_time update;
         localTime = (if can_getCurrentTime (playerControlRef s)
                      then Some (vp_getCurrentTime (player s)) else None);
         s1 = (case localTime of
                 Some lt \<Rightarrow>
                   if \<bar>lt - expectedTime\<bar> > SEEK_THRESHOLD \<and> can_seekTo (playerControlRef s)
                   then ctl_seekTo expectedTime s else s
               | None \<Rightarrow> s\<lparr>pendingSeekRef := Some expectedTime\<rparr>)
     in if can_setPlaying (playerControlRef s) then ctl_setPlaying (is_playing update) s1 else s1)"

text \<open>\<^verbatim>\<open>effectiveUrl ?? null\<close>, with \<^verbatim>\<open>effectiveUrl = (youtubeUrl || initialYoutubeUrl) ?? undefined\<close>.\<close>

definition effectiveUrl :: "room \<Rightarrow> string option" where
  "effectiveUrl s =
    (case youtubeUrl s of
       Some u \<Rightarrow> if u \<noteq> [] then Some u else initialYoutubeUrl s
     | None \<Rightarrow> initialYoutubeUrl s)"

definition emit_update :: "bool \<Rightarrow> real \<Rightarrow> room \<Rightarrow> room" where
  "emit_update playing t s =
    s\<lparr>emitted := emitted s @
      [\<lparr>roomId = propRoomId s, video_url = effectiveUrl s, is_playing = playing, playback_time = t\<rparr>]\<rparr>"

text \<open>
  The periodic time update; \<open>now\<close> is what \<^verbatim>\<open>Date.now()\<close> returns. The three local
  handlers also forward to the parent's optional \<^verbatim>\<open>onTimeUpdate\<close> callback, which is
  outside the component.
\<close>

definition handleLocalTimeUpdate :: "int \<Rightarrow> real \<Rightarrow> room \<Rightarrow> room" where
  "handleLocalTimeUpdate now t s =
    (if now - lastSentRef s < UPDATE_THROTTLE_MS then s
     else emit_update True t (s\<lparr>lastSentRef := now\<rparr>))"

definition handleLocalPlayPause :: "bool \<Rightarrow> real \<Rightarrow> room \<Rightarrow> room" where
  "handleLocalPlayPause isPlaying t s = emit_update isPlaying t s"

definition handleLocalSeek :: "real \<Rightarrow> room \<Rightarrow> room" where
  "handleLocalSeek seekTo s = emit_update True seekTo s"

definition setPlayerControls :: "controls option \<Rightarrow> room \<Rightarrow> room" where
  "setPlayerControls c s =
    (let s1 = s\<lparr>playerControlRef := c\<rparr>
     in case pendingSeekRef s1 of
          Some t \<Rightarrow> if can_seekTo c then (ctl_seekTo t s1)\<lparr>pendingSeekRef := None\<rparr> else s1
        | None \<Rightarrow> s1)"

text \<open>The effect on the \<^verbatim>\<open>seekToTime\<close> prop: a seek requested by the parent.\<close>

definition external_seek :: "real option \<Rightarrow> room \<Rightarrow> room" where
  "external_seek seekToTime s =
    (case seekToTime of
       None \<Rightarrow> s
     | Some t \<Rightarrow> if can_seekTo (playerControlRef s) then ctl_seekTo t s
                else s\<lparr>pendingSeekRef := Some t\<rparr>)"

text \<open>The local events of a player, and a run of them from a state.\<close>

datatype local_event =
    TimeUpdate int real
  | LocalPlay real
  | LocalPause real
  | LocalSeek real

fun local_step :: "local_event \<Rightarrow> room \<Rightarrow> room" where
  "local_step (TimeUpdate now t) s = handleLocalTimeUpdate now t s"
| "local_step (LocalPlay t) s = handleLocalPlayPause True t s"
| "local_step (LocalPause t) s = handleLocalPlayPause False t s"
| "local_step (LocalSeek t) s = handleLocalSeek t s"

fun local_run :: "local_event list \<Rightarrow> room \<Rightarrow> room" where
  "local_run [] s = s"
| "local_run (e # es) s = local_run es (local_step e s)"

text \<open>
  The values of \<^verbatim>\<open>Date.now()\<close> at which a run broadcasts a heartbeat: a time update
  that passes the throttle test.
\<close>

fun heartbeat_times :: "local_event list \<Rightarrow> room \<Rightarrow> int list" where
  "heartbeat_times [] s = []"
| "heartbeat_times (TimeUpdate now t # es) s =
    (if now - lastSentRef s < UPDATE_THROTTLE_MS then heartbeat_times es s
     else now # heartbeat_times es (handleLocalTimeUpdate now t s))"
| "heartbeat_times (e # es) s = heartbeat_times es (local_step e s)"

section \<open>Collaborative whiteboard (Whiteboard component)\<close>

text \<open>
  \<^verbatim>\<open>StrokePoint\<close> and \<^verbatim>\<open>StoredStroke\<close> as the component declares them. A point that
  arrives in a broadcast payload is untyped JSON, and the painting loop tests
  \<^verbatim>\<open>p.type === 'start'\<close> and \<^verbatim>\<open>p.type === 'move'\<close> separately, so a third kind stands for
  every other value. An optional member (\<^verbatim>\<open>tool?\<close>, \<^verbatim>\<open>size?\<close>) is an option.
\<close>

datatype kind = Start | Move | OtherKind

record StrokePoint =
  p_type :: kind
  p_x :: real
  p_y :: real

datatype tool = Pen | Eraser

record StoredStroke =
  points :: "StrokePoint list"
  color :: string
  tool :: "tool option"
  size_px :: "real option"

text \<open>
  The 2D context: the three settings the component reads and writes. Setters are plain
  assignments.
\<close>

datatype composite = SourceOver | DestinationOut

record ctx =
  globalCompositeOperation :: composite
  strokeStyle :: string
  lineWidth :: real

text \<open>
  The drawing surface is the sequence of path and paint calls made on the context since
  its bitmap was last blank. \<open>Stroke\<close> records the settings in force when
  \<^verbatim>\<open>ctx.stroke()\<close> ran: they decide what it paints.
\<close>

datatype paint =
    BeginPath
  | MoveTo real real
  | LineTo real real
  | Stroke composite string real
  | ClosePath

text \<open>Broadcast payloads, and the requests to the persistence API.\<close>

record batch_payload =
  b_userId :: string
  b_points :: "StrokePoint list"
  b_color :: string
  b_tool :: "tool option"
  b_size :: "real option"

record draw_payload =
  d_userId :: string
  d_type :: kind
  d_x :: real
  d_y :: real
  d_color :: string
  d_tool :: "tool option"
  d_size :: "real option"

datatype broadcast = DrawBatch batch_payload | Draw draw_payload | Clear string

record stroke_row =
  r_room_id :: string
  r_strokes :: "StrokePoint list"
  r_color :: string
  r_tool :: "tool option"
  r_size :: "real option"

datatype http = GetStrokes string | PostStroke stroke_row | DeleteStrokes string

datatype error = TypeError

text \<open>
  The refs and React state of one Whiteboard, its drawing surface, and two logs: the
  broadcasts sent on the channel and the requests made to the backend, oldest first.
\<close>

record wb =
  roomParam :: string
  userId :: string
  canvasRef :: bool
  contextRef :: "ctx option"
  painted :: "paint list"
  pointsBuffer :: "StrokePoint list"
  batchTimerRef :: bool
  currentPathRef :: "StrokePoint list"
  strokesStoreRef :: "StoredStroke list"
  isInitialSetup :: bool
  isConnected :: bool
  isDrawing :: bool
  currentColor :: string
  currentTool :: tool
  penSize :: real
  eraserSize :: real
  sent :: "broadcast list"
  requests :: "http list"

text \<open>\<^verbatim>\<open>tool ?? 'pen'\<close> and \<^verbatim>\<open>size ?? d\<close>.\<close>

definition tool_or_pen :: "tool option \<Rightarrow> tool" where
  "tool_or_pen t = (case t of None \<Rightarrow> Pen | Some v \<Rightarrow> v)"

definition size_or :: "real option \<Rightarrow> real \<Rightarrow> real" where
  "size_or sz d = (case sz of None \<Rightarrow> d | Some v \<Rightarrow> v)"

text \<open>
  The block "apply tool" of \<^verbatim>\<open>drawStroke\<close> and of the \<^verbatim>\<open>draw\<close> handler. \<open>pen\<close> and
  \<open>er\<close> are the values of \<^verbatim>\<open>penSize\<close> and \<^verbatim>\<open>eraserSize\<close> in the closure that runs the
  block.
\<close>

definition apply_tool :: "real \<Rightarrow> real \<Rightarrow> string \<Rightarrow> tool \<Rightarrow> real option \<Rightarrow> ctx \<Rightarrow> ctx" where
  "apply_tool pen er col the_tool sz c =
    (if the_tool = Eraser
     then c\<lparr>globalCompositeOperation := DestinationOut, lineWidth := size_or sz er\<rparr>
     else c\<lparr>globalCompositeOperation := SourceOver, strokeStyle := col,
            lineWidth := size_or sz pen\<rparr>)"

text \<open>The loop of \<^verbatim>\<open>drawStroke\<close> over the points, with its flag \<^verbatim>\<open>isNewPath\<close>.\<close>

fun draw_points :: "bool \<Rightarrow> ctx \<Rightarrow> StrokePoint list \<Rightarrow> paint list" where
  "draw_points isNewPath c [] = []"
| "draw_points isNewPath c (p # ps) =
    (if p_type p = Start \<or> isNewPath
     then BeginPath # MoveTo (p_x p) (p_y p) # draw_points False c ps
     else if p_type p = Move
     then LineTo (p_x p) (p_y p)
          # Stroke (globalCompositeOperation c) (strokeStyle c) (lineWidth c)
          # draw_points isNewPath c ps
     else draw_points isNewPath c ps)"

definition drawStroke ::
  "real \<Rightarrow> real \<Rightarrow> StrokePoint list \<Rightarrow> string \<Rightarrow> tool \<Rightarrow> real option \<Rightarrow> wb \<Rightarrow> wb" where
  "drawStroke pen er pts col the_tool sz s =
    (case contextRef s of
       None \<Rightarrow> s
     | Some c \<Rightarrow>
         if pts = [] then s
         else
           let prevComposite = globalCompositeOperation c;
               prevStroke = strokeStyle c;
               prevWidth = lineWidth c;
               c1 = apply_tool pen er col the_tool sz c
           in s\<lparr>contextRef := Some (c1\<lparr>globalCompositeOperation := prevComposite,
                                       strokeStyle := prevStroke, lineWidth := prevWidth\<rparr>),
                painted := painted s @ draw_points True c1 pts\<rparr>)"

text \<open>
  The loop of \<^verbatim>\<open>repaintAll\<close> over the stroke store, and \<^verbatim>\<open>repaintAll\<close>. Its only
  caller is \<^verbatim>\<open>setupCanvas\<close>.
\<close>

fun replay :: "real \<Rightarrow> real \<Rightarrow> StoredStroke list \<Rightarrow> wb \<Rightarrow> wb" where
  "replay pen er [] s = s"
| "replay pen er (e # es) s =
    replay pen er es
      (drawStroke pen er (points e) (color e) (tool_or_pen (tool e)) (size_px e) s)"

definition repaintAll :: "real \<Rightarrow> real \<Rightarrow> wb \<Rightarrow> wb" where
  "repaintAll pen er s =
    (case contextRef s of None \<Rightarrow> s | Some c \<Rightarrow> replay pen er (strokesStoreRef s) s)"

text \<open>
  \<^verbatim>\<open>setupCanvas\<close>, run on mount and on every resize. Assigning the canvas width resets
  the bitmap and the context; the function then sets the line width to 5 and the stroke
  style to the colour \<open>col\<close> of its closure, and repaints.
\<close>

definition setupCanvas :: "string \<Rightarrow> real \<Rightarrow> real \<Rightarrow> wb \<Rightarrow> wb" where
  "setupCanvas col pen er s =
    (if \<not> canvasRef s then s
     else repaintAll pen er
            (s\<lparr>contextRef := Some \<lparr>globalCompositeOperation = SourceOver, strokeStyle = col,
                                   lineWidth = 5\<rparr>,
               painted := []\<rparr>))"

definition tool_size :: "wb \<Rightarrow> real" where
  "tool_size s = (if currentTool s = Eraser then eraserSize s else penSize s)"

definition sendBatchedPoints :: "wb \<Rightarrow> wb" where
  "sendBatchedPoints s =
    (if pointsBuffer s = [] then s
     else s\<lparr>sent := sent s @
               [DrawBatch \<lparr>b_userId = userId s, b_points = pointsBuffer s,
                           b_color = currentColor s, b_tool = Some (currentTool s),
                           b_size = Some (tool_size s)\<rparr>],
            pointsBuffer := []\<rparr>)"

text \<open>The handlers of inbound \<^verbatim>\<open>draw_batch\<close>, \<^verbatim>\<open>draw\<close> and \<^verbatim>\<open>clear\<close> broadcasts.\<close>

definition on_draw_batch :: "real \<Rightarrow> real \<Rightarrow> batch_payload \<Rightarrow> wb \<Rightarrow> wb" where
  "on_draw_batch pen er payload s =
    (if b_userId payload = userId s then s
     else
       let the_tool = tool_or_pen (b_tool payload);
           s1 = drawStroke pen er (b_points payload) (b_color payload) the_tool (b_size payload) s
       in s1\<lparr>strokesStoreRef := strokesStoreRef s1 @
                [\<lparr>points = b_points payload, color = b_color payload, tool = Some the_tool,
                  size_px = b_size payload\<rparr>]\<rparr>)"

definition on_draw :: "real \<Rightarrow> real \<Rightarrow> draw_payload \<Rightarrow> wb \<Rightarrow> wb" where
  "on_draw pen er payload s =
    (if d_userId payload = userId s then s
     else case contextRef s of
       None \<Rightarrow> s
     | Some c \<Rightarrow>
         let prevComposite = globalCompositeOperation c;
             prevStroke = strokeStyle c;
             prevWidth = lineWidth c;
             c1 = apply_tool pen er (d_color payload) (tool_or_pen (d_tool payload))
                    (d_size payload) c;
             ops = (if d_type payload = Start
                    then [BeginPath, MoveTo (d_x payload) (d_y payload)]
                    else if d_type payload = Move
                    then [LineTo (d_x payload) (d_y payload),
                          Stroke (globalCompositeOperation c1) (strokeStyle c1) (lineWidth c1)]
                    else [])
         in s\<lparr>contextRef := Some (c1\<lparr>globalCompositeOperation := prevComposite,
                                     strokeStyle := prevStroke, lineWidth := prevWidth\<rparr>),
              painted := painted s @ ops\<rparr>)"

definition on_clear :: "wb \<Rightarrow> wb" where
  "on_clear s = (if contextRef s = None \<or> \<not> canvasRef s then s else s\<lparr>painted := []\<rparr>)"

text \<open>
  The subscribe callback: on \<^verbatim>\<open>SUBSCRIBED\<close> the client announces itself, sets
  \<^verbatim>\<open>isConnected\<close> and requests the stroke history; when the response arrives
  (\<open>None\<close>: the request failed) each row is painted and appended to the store.
\<close>

definition on_subscribed :: "wb \<Rightarrow> wb" where
  "on_subscribed s = s\<lparr>isConnected := True, requests := requests s @ [GetStrokes (roomParam s)]\<rparr>"

fun seed_strokes :: "real \<Rightarrow> real \<Rightarrow> stroke_row list \<Rightarrow> wb \<Rightarrow> wb" where
  "seed_strokes pen er [] s = s"
| "seed_strokes pen er (r # rs) s =
    seed_strokes pen er rs
      (let s1 = drawStroke pen er (r_strokes r) (r_color r) (tool_or_pen (r_tool r)) (r_size r) s
       in s1\<lparr>strokesStoreRef := strokesStoreRef s1 @
                [\<lparr>points = r_strokes r, color = r_color r, tool = Some (tool_or_pen (r_tool r)),
                  size_px = r_size r\<rparr>]\<rparr>)"

text \<open>
  \<^verbatim>\<open>setCurrentColor\<close> together with the effect that depends on \<^verbatim>\<open>currentColor\<close>: when
  the colour changes, the effect copies it into the context's stroke style.
\<close>

definition setCurrentColor :: "string \<Rightarrow> wb \<Rightarrow> wb" where
  "setCurrentColor col s =
    (if col = currentColor s then s
     else s\<lparr>currentColor := col,
            contextRef := map_option (\<lambda>c. c\<lparr>strokeStyle := col\<rparr>) (contextRef s)\<rparr>)"

definition on_strokes_fetched :: "real \<Rightarrow> real \<Rightarrow> stroke_row list option \<Rightarrow> wb \<Rightarrow> wb" where
  "on_strokes_fetched pen er response s =
    (case response of
       None \<Rightarrow> s
     | Some data \<Rightarrow>
         let s1 = seed_strokes pen er data s
         in if data \<noteq> [] then setCurrentColor (r_color (last data)) s1 else s1)"

text \<open>The local drawing handlers: mouse down, mouse move, mouse up or leave.\<close>

definition local_tool :: "wb \<Rightarrow> ctx \<Rightarrow> ctx" where
  "local_tool s c =
    (if currentTool s = Eraser
     then c\<lparr>globalCompositeOperation := DestinationOut, lineWidth := eraserSize s\<rparr>
     else c\<lparr>globalCompositeOperation := SourceOver, strokeStyle := currentColor s,
            lineWidth := penSize s\<rparr>)"

definition draw_msg :: "kind \<Rightarrow> real \<Rightarrow> real \<Rightarrow> wb \<Rightarrow> broadcast" where
  "draw_msg k px py s =
    Draw \<lparr>d_userId = userId s, d_type = k, d_x = px, d_y = py, d_color = currentColor s,
          d_tool = Some (currentTool s), d_size = Some (tool_size s)\<rparr>"

definition startDrawing :: "real \<Rightarrow> real \<Rightarrow> wb \<Rightarrow> wb" where
  "startDrawing offsetX offsetY s =
    (case contextRef s of
       None \<Rightarrow> s
     | Some c \<Rightarrow>
         s\<lparr>contextRef := Some (local_tool s c),
           painted := painted s @ [BeginPath, MoveTo offsetX offsetY],
           isDrawing := True,
           currentPathRef := [\<lparr>p_type = Start, p_x = offsetX, p_y = offsetY\<rparr>],
           pointsBuffer := pointsBuffer s @ [\<lparr>p_type = Start, p_x = offsetX, p_y = offsetY\<rparr>],
           batchTimerRef := True,
           sent := sent s @ [draw_msg Start offsetX offsetY s]\<rparr>)"

definition draw :: "real \<Rightarrow> real \<Rightarrow> wb \<Rightarrow> wb" where
  "draw offsetX offsetY s =
    (if \<not> isDrawing s then s
     else case contextRef s of
       None \<Rightarrow> s
     | Some c \<Rightarrow>
         let c1 = local_tool s c
         in s\<lparr>contextRef := Some c1,
              painted := painted s @
                [LineTo offsetX offsetY,
                 Stroke (globalCompositeOperation c1) (strokeStyle c1) (lineWidth c1)],
              pointsBuffer := pointsBuffer s @ [\<lparr>p_type = Move, p_x = offsetX, p_y = offsetY\<rparr>],
              sent := sent s @ [draw_msg Move offsetX offsetY s],
              currentPathRef := currentPathRef s @ [\<lparr>p_type = Move, p_x = offsetX, p_y = offsetY\<rparr>]\<rparr>)"

text \<open>
  \<^verbatim>\<open>stopDrawing\<close> is asynchronous. \<open>stopDrawing_start\<close> is its body up to the
  \<^verbatim>\<open>await\<close> of the POST request, \<open>stopDrawing_finish\<close> the two statements after the
  persistence block (\<open>hadCtx\<close>: the context captured on entry was not null), and
  \<open>stopDrawing\<close> the whole call when nothing else runs while the request is in flight.
  With an empty current path there is no request and the call runs to its end at once.
\<close>

definition stopDrawing_start :: "wb \<Rightarrow> wb" where
  "stopDrawing_start s =
    (let s1 = (if contextRef s \<noteq> None then s\<lparr>painted := painted s @ [ClosePath]\<rparr> else s);
         s2 = sendBatchedPoints (s1\<lparr>isDrawing := False\<rparr>);
         s3 = s2\<lparr>batchTimerRef := False\<rparr>
     in if currentPathRef s3 \<noteq> []
        then s3\<lparr>strokesStoreRef := strokesStoreRef s3 @
                   [\<lparr>points = currentPathRef s3, color = currentColor s3,
                     tool = Some (currentTool s3), size_px = Some (tool_size s3)\<rparr>],
                requests := requests s3 @
                   [PostStroke \<lparr>r_room_id = roomParam s3, r_strokes = currentPathRef s3,
                                r_color = currentColor s3, r_tool = Some (currentTool s3),
                                r_size = Some (tool_size s3)\<rparr>]\<rparr>
        else s3)"

definition stopDrawing_finish :: "bool \<Rightarrow> wb \<Rightarrow> wb" where
  "stopDrawing_finish hadCtx s =
    (let s1 = s\<lparr>currentPathRef := []\<rparr>
     in if hadCtx
        then s1\<lparr>contextRef := map_option (\<lambda>c. c\<lparr>globalCompositeOperation := SourceOver\<rparr>)
                                (contextRef s1)\<rparr>
        else s1)"

definition stopDrawing :: "wb \<Rightarrow> wb" where
  "stopDrawing s = stopDrawing_finish (contextRef s \<noteq> None) (stopDrawing_start s)"

text \<open>A run of mouse moves, each handled by \<^verbatim>\<open>draw\<close>.\<close>

fun draws :: "(real \<times> real) list \<Rightarrow> wb \<Rightarrow> wb" where
  "draws [] s = s"
| "draws ((px, py) # ms) s = draws ms (draw px py s)"

text \<open>
  \<^verbatim>\<open>clearCanvas\<close> is asynchronous too: \<open>clearCanvas_start\<close> runs up to the \<^verbatim>\<open>await\<close>
  of the DELETE request (a null context or canvas raises a TypeError there), and
  \<open>clearCanvas_finish\<close> runs once the request has settled, whatever its outcome.
\<close>

definition clearCanvas_start :: "wb \<Rightarrow> error + wb" where
  "clearCanvas_start s =
    (if contextRef s = None \<or> \<not> canvasRef s then Inl TypeError
     else Inr (s\<lparr>painted := [], requests := requests s @ [DeleteStrokes (roomParam s)]\<rparr>))"

definition clearCanvas_finish :: "wb \<Rightarrow> wb" where
  "clearCanvas_finish s = s\<lparr>sent := sent s @ [Clear (userId s)]\<rparr>"

definition clearCanvas :: "wb \<Rightarrow> error + wb" where
  "clearCanvas s =
    (case clearCanvas_start s of Inl e \<Rightarrow> Inl e | Inr s1 \<Rightarrow> Inr (clearCanvas_finish s1))"

text \<open>
  The component after its mount effects have run and before the channel has subscribed:
  the initial values of the refs and of the React state, and a blank canvas set up by
  \<^verbatim>\<open>setupCanvas\<close>. \<open>uid\<close> is the random \<^verbatim>\<open>userId\<close>, \<open>rid\<close> the room of the route.
\<close>

definition wb_mounted :: "string \<Rightarrow> string \<Rightarrow> wb" where
  "wb_mounted uid rid =
    setupCanvas ''#3ecf8e'' 5 18
      \<lparr>roomParam = rid, userId = uid, canvasRef = True, contextRef = None, painted = [],
       pointsBuffer = [], batchTimerRef = False, currentPathRef = [], strokesStoreRef = [],
       isInitialSetup = True, isConnected = False, isDrawing = False,
       currentColor = ''#3ecf8e'', currentTool = Pen, penSize = 5, eraserSize = 18,
       sent = [], requests = []\<rparr>"

section \<open>Properties of paint sequences and of event runs\<close>

text \<open>
  A sequence of path calls never draws a segment from an undefined position: every
  \<open>LineTo\<close> finds a current point, set by a \<open>MoveTo\<close> since the last \<open>BeginPath\<close>.
  \<open>has\<close> says whether the path has a current point before the sequence.
\<close>

fun path_ok :: "bool \<Rightarrow> paint list \<Rightarrow> bool" where
  "path_ok has [] = True"
| "path_ok has (BeginPath # ops) = path_ok False ops"
| "path_ok has (MoveTo px py # ops) = path_ok True ops"
| "path_ok has (LineTo px py # ops) = (has \<and> path_ok True ops)"
| "path_ok has (Stroke m c w # ops) = path_ok has ops"
| "path_ok has (ClosePath # ops) = path_ok has ops"

fun is_heartbeat :: "local_event \<Rightarrow> bool" where
  "is_heartbeat (TimeUpdate now t) = True"
| "is_heartbeat e = False"

section \<open>Concrete states and messages\<close>

text \<open>
  A player on a \<^verbatim>\<open><video>\<close> element with its control surface attached, paused at 10 s;
  the same player before VideoPlayer has registered its controls; a player with a
  YouTube URL whose \<^verbatim>\<open>YT.Player\<close> does not exist yet; a player on a ready YouTube
  player, paused at 10 s; four payloads.
\<close>

definition room0 :: room where
  "room0 = \<lparr>lastSentRef = 0, pendingSeekRef = None, playerControlRef = Some exposeControls,
     propRoomId = ''7'', youtubeUrl = None, initialYoutubeUrl = None, propUserId = Some ''u1'',
     player = \<lparr>playerRef = None, html5Ref = Some \<lparr>currentTime = 10, paused = True\<rparr>,
                isPlayingState = False\<rparr>,
     calls = [], emitted = []\<rparr>"

definition room_unready :: room where
  "room_unready = room0\<lparr>playerControlRef := None\<rparr>"

definition room_loading :: room where
  "room_loading =
    room0\<lparr>player := \<lparr>playerRef = None, html5Ref = None, isPlayingState = False\<rparr>\<rparr>"

definition room_yt :: room where
  "room_yt =
    room0\<lparr>player := \<lparr>playerRef = Some \<lparr>yt_ready = True,
                                           yt_media = \<lparr>currentTime = 10, paused = True\<rparr>\<rparr>,
                        html5Ref = None, isPlayingState = False\<rparr>\<rparr>"

definition msg_far :: playback_msg where
  "msg_far = \<lparr>roomId = ''7'', video_url = None, is_playing = False, playback_time = 42\<rparr>"

definition msg_a :: playback_msg where
  "msg_a = \<lparr>roomId = ''7'', video_url = None, is_playing = True, playback_time = 30\<rparr>"

definition msg_b :: playback_msg where
  "msg_b = \<lparr>roomId = ''7'', video_url = None, is_playing = False, playback_time = 55\<rparr>"

definition echo_msg :: tagged_msg where
  "echo_msg = \<lparr>roomId = ''7'', video_url = None, is_playing = True, playback_time = 42,
     originId = ''u1''\<rparr>"

text \<open>
  A whiteboard of user \<open>u1\<close> after one local pen stroke from (10, 10) to (20, 20), and two
  broadcasts tagged with the same user.
\<close>

definition wb_one :: wb where
  "wb_one = stopDrawing (draw 20 20 (startDrawing 10 10 (wb_mounted ''u1'' ''1'')))"

text \<open>
  Three stored strokes: a pen stroke with its size, an eraser stroke without a size whose
  first point is a \<open>Move\<close> and which holds a second \<open>Start\<close>, and a row of old data
  with neither tool nor size.
\<close>

definition stroke_pen :: StoredStroke where
  "stroke_pen = \<lparr>points = [\<lparr>p_type = Start, p_x = 1, p_y = 2\<rparr>, \<lparr>p_type = Move, p_x = 3, p_y = 4\<rparr>],
     color = ''#f43f5e'', tool = Some Pen, size_px = Some 7\<rparr>"

definition stroke_eraser :: StoredStroke where
  "stroke_eraser =
     \<lparr>points = [\<lparr>p_type = Move, p_x = 5, p_y = 6\<rparr>, \<lparr>p_type = Move, p_x = 7, p_y = 8\<rparr>,
                \<lparr>p_type = Start, p_x = 9, p_y = 9\<rparr>, \<lparr>p_type = Move, p_x = 0, p_y = 1\<rparr>],
      color = ''#ffffff'', tool = Some Eraser, size_px = None\<rparr>"

definition stroke_old :: StoredStroke where
  "stroke_old = \<lparr>points = [\<lparr>p_type = Start, p_x = 2, p_y = 2\<rparr>, \<lparr>p_type = Move, p_x = 4, p_y = 4\<rparr>],
     color = ''#60a5fa'', tool = None, size_px = None\<rparr>"

definition own_batch :: batch_payload where
  "own_batch = \<lparr>b_userId = ''u1'',
     b_points = [\<lparr>p_type = Start, p_x = 1, p_y = 2\<rparr>, \<lparr>p_type = Move, p_x = 3, p_y = 4\<rparr>],
     b_color = ''#ffffff'', b_tool = Some Eraser, b_size = None\<rparr>"

definition own_draw :: draw_payload where
  "own_draw = \<lparr>d_userId = ''u1'', d_type = Move, d_x = 3, d_y = 4, d_color = ''#ffffff'',
     d_tool = None, d_size = Some 7\<rparr>"

section \<open>Lemmas\<close>

lemmas room_defs = on_playback_update_def ctl_seekTo_def ctl_setPlaying_def can_seekTo_def
  can_getCurrentTime_def can_setPlaying_def Let_def

lemmas vp_defs = vp_seekTo_def vp_getCurrentTime_def vp_setPlaying_def yt_method_def

lemmas wb_defs = wb_mounted_def setupCanvas_def repaintAll_def startDrawing_def draw_def
  stopDrawing_def stopDrawing_start_def stopDrawing_finish_def sendBatchedPoints_def
  local_tool_def draw_msg_def tool_size_def drawStroke_def apply_tool_def tool_or_pen_def
  size_or_def clearCanvas_def clearCanvas_start_def clearCanvas_finish_def on_clear_def Let_def

lemma hb_chain:
  "successively (\<lambda>a b. UPDATE_THROTTLE_MS \<le> b - a) (lastSentRef s # heartbeat_times evs s)"
proof (induction evs arbitrary: s)
  case Nil
  show ?case by simp
next
  case (Cons e es)
  show ?case
  proof (cases e)
    case (TimeUpdate now t)
    show ?thesis
    proof (cases "now - lastSentRef s < UPDATE_THROTTLE_MS")
      case True
      with TimeUpdate Cons.IH [of s] show ?thesis by simp
    next
      case False
      have "lastSentRef (handleLocalTimeUpdate now t s) = now"
        using False by (simp add: handleLocalTimeUpdate_def emit_update_def)
      with TimeUpdate False Cons.IH [of "handleLocalTimeUpdate now t s"] show ?thesis
        by simp
    qed
  next
    case (LocalPlay t)
    have "lastSentRef (local_step e s) = lastSentRef s"
      using LocalPlay by (simp add: handleLocalPlayPause_def emit_update_def)
    with LocalPlay Cons.IH [of "local_step e s"] show ?thesis by simp
  next
    case (LocalPause t)
    have "lastSentRef (local_step e s) = lastSentRef s"
      using LocalPause by (simp add: handleLocalPlayPause_def emit_update_def)
    with LocalPause Cons.IH [of "local_step e s"] show ?thesis by simp
  next
    case (LocalSeek t)
    have "lastSentRef (local_step e s) = lastSentRef s"
      using LocalSeek by (simp add: handleLocalSeek_def emit_update_def)
    with LocalSeek Cons.IH [of "local_step e s"] show ?thesis by simp
  qed
qed

lemma run_emitted_length:
  "length (emitted (local_run evs s)) =
     length (emitted s) + length (heartbeat_times evs s)
       + length (filter (\<lambda>e. \<not> is_heartbeat e) evs)"
proof (induction evs arbitrary: s)
  case Nil
  show ?case by simp
next
  case (Cons e es)
  show ?case
    using Cons.IH [of "local_step e s"]
    by (cases e)
      (simp_all add: handleLocalTimeUpdate_def handleLocalPlayPause_def handleLocalSeek_def
        emit_update_def)
qed

lemma drawStroke_contextRef: "contextRef (drawStroke pen er pts col tk sz s) = contextRef s"
  by (simp add: drawStroke_def apply_tool_def Let_def split: option.splits)

lemma drawStroke_store: "strokesStoreRef (drawStroke pen er pts col tk sz s) = strokesStoreRef s"
  by (simp add: drawStroke_def Let_def split: option.splits)

lemma drawStroke_sent: "sent (drawStroke pen er pts col tk sz s) = sent s"
  by (simp add: drawStroke_def Let_def split: option.splits)

lemma drawStroke_painted:
  "painted (drawStroke pen er pts col tk sz s) =
     painted s @ painted (drawStroke pen er pts col tk sz (s\<lparr>painted := []\<rparr>))"
  by (simp add: drawStroke_def Let_def split: option.splits)

lemma drawStroke_blank_cong:
  "contextRef s = contextRef s' \<Longrightarrow>
   painted (drawStroke pen er pts col tk sz (s\<lparr>painted := []\<rparr>)) =
   painted (drawStroke pen er pts col tk sz (s'\<lparr>painted := []\<rparr>))"
  by (simp add: drawStroke_def Let_def split: option.splits)

lemma replay_contextRef: "contextRef (replay pen er es s) = contextRef s"
  by (induction es arbitrary: s) (simp_all add: drawStroke_contextRef)

lemma replay_store: "strokesStoreRef (replay pen er es s) = strokesStoreRef s"
  by (induction es arbitrary: s) (simp_all add: drawStroke_store)

lemma replay_painted:
  "painted (replay pen er es s) =
     painted s @
     concat (map (\<lambda>e. painted (drawStroke pen er (points e) (color e) (tool_or_pen (tool e))
                                  (size_px e) (s\<lparr>painted := []\<rparr>))) es)"
proof (induction es arbitrary: s)
  case Nil
  show ?case by simp
next
  case (Cons e es)
  let ?s1 = "drawStroke pen er (points e) (color e) (tool_or_pen (tool e)) (size_px e) s"
  have same: "contextRef ?s1 = contextRef s" by (rule drawStroke_contextRef)
  have "painted (replay pen er (e # es) s) = painted (replay pen er es ?s1)" by simp
  also have "\<dots> = painted ?s1 @
      concat (map (\<lambda>e. painted (drawStroke pen er (points e) (color e) (tool_or_pen (tool e))
                                  (size_px e) (?s1\<lparr>painted := []\<rparr>))) es)"
    by (rule Cons.IH)
  also have "\<dots> = painted ?s1 @
      concat (map (\<lambda>e. painted (drawStroke pen er (points e) (color e) (tool_or_pen (tool e))
                                  (size_px e) (s\<lparr>painted := []\<rparr>))) es)"
    using drawStroke_blank_cong [OF same] by simp
  finally show ?case
    using drawStroke_painted [of pen er "points e" "color e" "tool_or_pen (tool e)" "size_px e" s]
    by simp
qed

lemma repaintAll_contextRef: "contextRef (repaintAll pen er s) = contextRef s"
  by (simp add: repaintAll_def replay_contextRef split: option.splits)

lemma repaintAll_store: "strokesStoreRef (repaintAll pen er s) = strokesStoreRef s"
  by (simp add: repaintAll_def replay_store split: option.splits)

lemma repaintAll_blank:
  "painted (repaintAll pen er (s\<lparr>painted := []\<rparr>)) =
     concat (map (\<lambda>e. painted (drawStroke pen er (points e) (color e) (tool_or_pen (tool e))
                                  (size_px e) (s\<lparr>painted := []\<rparr>)))
                 (strokesStoreRef s))"
proof (cases "contextRef s")
  case None
  then have "painted (drawStroke pen er pts col tk sz (s\<lparr>painted := []\<rparr>)) = []"
    for pts col tk sz
    by (simp add: drawStroke_def)
  with None show ?thesis by (simp add: repaintAll_def)
next
  case (Some c)
  then show ?thesis by (simp add: repaintAll_def replay_painted)
qed

lemma repaintAll_blank_cong:
  assumes "contextRef s = contextRef s'" and "strokesStoreRef s = strokesStoreRef s'"
  shows "painted (repaintAll pen er (s\<lparr>painted := []\<rparr>)) =
         painted (repaintAll pen er (s'\<lparr>painted := []\<rparr>))"
  using assms drawStroke_blank_cong [of s s' pen er] by (simp add: repaintAll_blank)

lemma seed_strokes_sent: "sent (seed_strokes pen er rows s) = sent s"
  by (induction rows arbitrary: s) (simp_all add: Let_def drawStroke_sent)

lemma path_ok_draw_points_False: "path_ok True (draw_points False c ps)"
  by (induction ps) simp_all

lemma draw_points_False_explicit:
  "draw_points False c ps =
     concat (map (\<lambda>q. if p_type q = Start then [BeginPath, MoveTo (p_x q) (p_y q)]
                       else if p_type q = Move
                       then [LineTo (p_x q) (p_y q),
                             Stroke (globalCompositeOperation c) (strokeStyle c) (lineWidth c)]
                       else []) ps)"
  by (induction ps) simp_all

lemma drawStroke_blank_explicit:
  "painted (drawStroke pen er (points e) (color e) (tool_or_pen (tool e)) (size_px e)
             (s\<lparr>contextRef := Some c, painted := []\<rparr>)) =
     (case points e of
        [] \<Rightarrow> []
      | p # ps \<Rightarrow>
          BeginPath # MoveTo (p_x p) (p_y p) #
          concat (map (\<lambda>q. if p_type q = Start then [BeginPath, MoveTo (p_x q) (p_y q)]
                            else if p_type q = Move
                            then [LineTo (p_x q) (p_y q),
                                  if tool e = Some Eraser
                                  then Stroke DestinationOut (strokeStyle c)
                                         (case size_px e of None \<Rightarrow> er | Some v \<Rightarrow> v)
                                  else Stroke SourceOver (color e)
                                         (case size_px e of None \<Rightarrow> pen | Some v \<Rightarrow> v)]
                            else []) ps))"
proof (cases "points e")
  case Nil
  then show ?thesis by (simp add: drawStroke_def)
next
  case (Cons p ps)
  show ?thesis
  proof (cases "tool e = Some Eraser")
    case True
    with Cons show ?thesis
      by (simp add: drawStroke_def Let_def draw_points_False_explicit apply_tool_def
          tool_or_pen_def size_or_def cong: if_cong)
  next
    case False
    then have "tool_or_pen (tool e) = Pen"
      by (cases "tool e"; cases "the (tool e)") (simp_all add: tool_or_pen_def)
    with Cons False show ?thesis
      by (simp add: drawStroke_def Let_def draw_points_False_explicit apply_tool_def size_or_def
          cong: if_cong)
  qed
qed

lemma local_tool_again:
  "currentTool t = currentTool s \<Longrightarrow> currentColor t = currentColor s \<Longrightarrow>
   penSize t = penSize s \<Longrightarrow> eraserSize t = eraserSize s \<Longrightarrow>
   local_tool t (local_tool s c) = local_tool s c"
  by (simp add: local_tool_def)

lemma draws_contextRef:
  "contextRef t = Some (local_tool s c) \<Longrightarrow> isDrawing t \<Longrightarrow>
   currentTool t = currentTool s \<Longrightarrow> currentColor t = currentColor s \<Longrightarrow>
   penSize t = penSize s \<Longrightarrow> eraserSize t = eraserSize s \<Longrightarrow>
   contextRef (draws ms t) = Some (local_tool s c)"
proof (induction ms arbitrary: t)
  case Nil
  then show ?case by simp
next
  case (Cons m ms)
  obtain px py where m: "m = (px, py)" by (cases m)
  have "contextRef (draw px py t) = Some (local_tool s c)"
    using Cons.prems by (simp add: draw_def Let_def local_tool_again)
  moreover have "isDrawing (draw px py t)" "currentTool (draw px py t) = currentTool s"
    "currentColor (draw px py t) = currentColor s" "penSize (draw px py t) = penSize s"
    "eraserSize (draw px py t) = eraserSize s"
    using Cons.prems by (simp_all add: draw_def Let_def)
  ultimately show ?case using m Cons.IH [of "draw px py t"] by simp
qed

lemma draws_no_context: "contextRef t = None \<Longrightarrow> contextRef (draws ms t) = None"
proof (induction ms arbitrary: t)
  case Nil
  then show ?case by simp
next
  case (Cons m ms)
  obtain px py where m: "m = (px, py)" by (cases m)
  have "contextRef (draw px py t) = None" using Cons.prems by (simp add: draw_def)
  with m Cons.IH [of "draw px py t"] show ?case by simp
qed

lemma stopDrawing_contextRef:
  "contextRef (stopDrawing t) =
     map_option (\<lambda>c. c\<lparr>globalCompositeOperation := SourceOver\<rparr>) (contextRef t)"
  by (cases "contextRef t")
    (simp_all add: stopDrawing_def stopDrawing_start_def stopDrawing_finish_def
      sendBatchedPoints_def Let_def)

lemma local_stroke_contextRef:
  "contextRef (stopDrawing (draws ms (startDrawing px py s))) =
     map_option
       (\<lambda>c. \<lparr>globalCompositeOperation = SourceOver,
              strokeStyle = (if currentTool s = Eraser then strokeStyle c else currentColor s),
              lineWidth = tool_size s\<rparr>)
       (contextRef s)"
proof (cases "contextRef s")
  case None
  then have "contextRef (startDrawing px py s) = None" by (simp add: startDrawing_def)
  then have "contextRef (draws ms (startDrawing px py s)) = None" by (rule draws_no_context)
  with None show ?thesis by (simp add: stopDrawing_contextRef)
next
  case (Some c)
  let ?t = "startDrawing px py s"
  from Some have "contextRef ?t = Some (local_tool s c)" "isDrawing ?t"
    "currentTool ?t = currentTool s" "currentColor ?t = currentColor s"
    "penSize ?t = penSize s" "eraserSize ?t = eraserSize s"
    by (simp_all add: startDrawing_def)
  then have "contextRef (draws ms ?t) = Some (local_tool s c)" by (rule draws_contextRef)
  with Some show ?thesis
    by (simp add: stopDrawing_contextRef local_tool_def tool_size_def)
qed

section \<open>Playback: reconciliation of remote updates\<close>

text \<open>
  C1. A remote playback update that arrives while the control surface is attached (its
  three members are functions) issues a corrective seek exactly when the drift
  \<open>\<bar>localTime - playback_time\<bar>\<close> exceeds \<open>SEEK_THRESHOLD\<close>, where \<open>localTime\<close> is what
  \<^verbatim>\<open>getCurrentTime()\<close> returns; the seek is a single call whose target is the message's
  \<open>playback_time\<close>; the message's \<open>is_playing\<close> flag is passed to \<open>setPlaying\<close> whatever
  the drift. The pending-seek buffer is not touched. What the two calls do to the
  VideoPlayer is what its own members do: \<^verbatim>\<open>isPlaying\<close> always takes the flag; a
  \<^verbatim>\<open><video>\<close> with no YouTube player object, and a ready YouTube player, are moved
  and played or paused; with neither, no media changes.
\<close>

theorem remote_update_seek_iff_drift:
  assumes "playerControlRef s = Some c"
    and "has_getCurrentTime c" and "has_seekTo c" and "has_setPlaying c"
  shows "calls (on_playback_update u s) =
           calls s
           @ (if \<bar>vp_getCurrentTime (player s) - playback_time u\<bar> > SEEK_THRESHOLD
              then [SeekTo (playback_time u)] else [])
           @ [SetPlaying (is_playing u)]
       \<and> player (on_playback_update u s) =
           vp_setPlaying (is_playing u)
             (if \<bar>vp_getCurrentTime (player s) - playback_time u\<bar> > SEEK_THRESHOLD
              then vp_seekTo (playback_time u) (player s) else player s)
       \<and> isPlayingState (player (on_playback_update u s)) = is_playing u
       \<and> (playerRef (player s) = None \<longrightarrow>
            playerRef (player (on_playback_update u s)) = None
            \<and> html5Ref (player (on_playback_update u s)) =
                map_option
                  (\<lambda>m. \<lparr>currentTime =
                          (if \<bar>currentTime m - playback_time u\<bar> > SEEK_THRESHOLD
                           then playback_time u else currentTime m),
                        paused = (\<not> is_playing u)\<rparr>)
                  (html5Ref (player s)))
       \<and> (yt_method (player s) \<longrightarrow>
            html5Ref (player (on_playback_update u s)) = html5Ref (player s)
            \<and> map_option yt_media (playerRef (player (on_playback_update u s))) =
                map_option
                  (\<lambda>y. \<lparr>currentTime =
                          (if \<bar>currentTime (yt_media y) - playback_time u\<bar> > SEEK_THRESHOLD
                           then playback_time u else currentTime (yt_media y)),
                        paused = (\<not> is_playing u)\<rparr>)
                  (playerRef (player s)))
       \<and> pendingSeekRef (on_playback_update u s) = pendingSeekRef s"
proof -
  let ?far = "\<bar>vp_getCurrentTime (player s) - playback_time u\<bar> > SEEK_THRESHOLD"
  let ?s' = "on_playback_update u s"
  have c: "calls ?s' = calls s @ (if ?far then [SeekTo (playback_time u)] else [])
             @ [SetPlaying (is_playing u)]"
    and p: "player ?s' = vp_setPlaying (is_playing u)
             (if ?far then vp_seekTo (playback_time u) (player s) else player s)"
    and b: "pendingSeekRef ?s' = pendingSeekRef s"
    using assms by (simp_all add: room_defs)
  have i: "isPlayingState (player ?s') = is_playing u"
    by (simp add: p vp_setPlaying_def Let_def)
  have h: "playerRef (player ?s') = None
        \<and> html5Ref (player ?s') =
            map_option
              (\<lambda>m. \<lparr>currentTime =
                      (if \<bar>currentTime m - playback_time u\<bar> > SEEK_THRESHOLD
                       then playback_time u else currentTime m),
                    paused = (\<not> is_playing u)\<rparr>)
              (html5Ref (player s))"
    if "playerRef (player s) = None"
    using that by (cases "html5Ref (player s)") (simp_all add: p vp_defs Let_def)
  have y: "html5Ref (player ?s') = html5Ref (player s)
        \<and> map_option yt_media (playerRef (player ?s')) =
            map_option
              (\<lambda>y. \<lparr>currentTime =
                      (if \<bar>currentTime (yt_media y) - playback_time u\<bar> > SEEK_THRESHOLD
                       then playback_time u else currentTime (yt_media y)),
                    paused = (\<not> is_playing u)\<rparr>)
              (playerRef (player s))"
    if "yt_method (player s)"
    using that by (cases "playerRef (player s)") (simp_all add: p vp_defs Let_def)
  show ?thesis using c p b i h y by blast
qed

text \<open>
  A \<^verbatim>\<open><video>\<close> at 10 s and a message for 42 s: the drift is 32 s, so one seek to 42,
  then the flag, and the element stands at 42 s. A message for 10.5 s: the drift is
  0.5 s, the flag alone. With a YouTube URL and no player object yet the controls are
  registered all the same and \<^verbatim>\<open>getCurrentTime()\<close> returns 0: the same two calls are
  made for the message for 42 s, and no media moves.
\<close>

theorem remote_update_seek_iff_drift_witness:
  "playerControlRef room0 = Some exposeControls
   \<and> has_getCurrentTime exposeControls \<and> has_seekTo exposeControls \<and> has_setPlaying exposeControls
   \<and> calls (on_playback_update msg_far room0) = [SeekTo 42, SetPlaying False]
   \<and> html5Ref (player (on_playback_update msg_far room0)) =
       Some \<lparr>currentTime = 42, paused = True\<rparr>
   \<and> calls (on_playback_update (msg_far\<lparr>playback_time := 10.5\<rparr>) room0) = [SetPlaying False]
   \<and> playerControlRef room_loading = Some exposeControls
   \<and> calls (on_playback_update msg_far room_loading) = [SeekTo 42, SetPlaying False]
   \<and> player (on_playback_update msg_far room_loading) = player room_loading
   \<and> yt_method (player room_yt)
   \<and> map_option yt_media (playerRef (player (on_playback_update msg_far room_yt))) =
       Some \<lparr>currentTime = 42, paused = True\<rparr>"
  using remote_update_seek_iff_drift [of room0 exposeControls msg_far]
    remote_update_seek_iff_drift [of room0 exposeControls "msg_far\<lparr>playback_time := 10.5\<rparr>"]
    remote_update_seek_iff_drift [of room_loading exposeControls msg_far]
    remote_update_seek_iff_drift [of room_yt exposeControls msg_far]
  by (simp add: room0_def room_loading_def room_yt_def exposeControls_def msg_far_def
      SEEK_THRESHOLD_def vp_defs)

section \<open>Echo suppression\<close>

text \<open>
  C2, as stated, fails on the playback path. The \<^verbatim>\<open>playback-update\<close> handler has no
  origin test, and the payloads the component emits carry no origin field. A payload
  tagged with the local user's own identifier is applied like any other: here it seeks
  the player from 10 s to 42 s and starts playback.
\<close>

theorem playback_echo_is_applied:
  "propUserId room0 = Some (originId echo_msg)
   \<and> player room0 =
       \<lparr>playerRef = None, html5Ref = Some \<lparr>currentTime = 10, paused = True\<rparr>,
        isPlayingState = False\<rparr>
   \<and> player (on_playback_update echo_msg room0) =
       \<lparr>playerRef = None, html5Ref = Some \<lparr>currentTime = 42, paused = False\<rparr>,
        isPlayingState = True\<rparr>
   \<and> calls (on_playback_update echo_msg room0) = [SeekTo 42, SetPlaying True]"
  by (simp add: room0_def echo_msg_def exposeControls_def room_defs vp_defs SEEK_THRESHOLD_def)

text \<open>
  C2, amended. An inbound \<^verbatim>\<open>draw_batch\<close> or \<^verbatim>\<open>draw\<close> broadcast whose \<open>userId\<close> equals
  the local \<open>userId\<close> is discarded, whatever the rest of its payload: the whole whiteboard
  state (stroke store, drawing context, drawing surface) is unchanged. The
  \<^verbatim>\<open>playback-update\<close> handler does not look at an origin tag: its result is the same for
  every value of the tag.
\<close>

theorem whiteboard_echo_discarded:
  "(b_userId p = userId s \<longrightarrow> on_draw_batch pen er p s = s)
   \<and> (d_userId q = userId s \<longrightarrow> on_draw pen er q s = s)
   \<and> on_playback_update (m\<lparr>originId := a\<rparr>) r = on_playback_update (m\<lparr>originId := b\<rparr>) r"
  by (simp add: on_draw_batch_def on_draw_def room_defs)

text \<open>
  The whiteboard of user \<open>u1\<close> receives a batch and a point tagged \<open>u1\<close>: nothing
  changes, and its stroke store still holds the local stroke.
\<close>

theorem whiteboard_echo_discarded_witness:
  "b_userId own_batch = userId wb_one \<and> on_draw_batch 5 18 own_batch wb_one = wb_one
   \<and> d_userId own_draw = userId wb_one \<and> on_draw 5 18 own_draw wb_one = wb_one
   \<and> strokesStoreRef wb_one \<noteq> []"
proof -
  have uid: "userId wb_one = ''u1''" and store: "strokesStoreRef wb_one \<noteq> []"
    by (simp_all add: wb_one_def wb_defs)
  have h1: "b_userId own_batch = userId wb_one" by (simp add: uid own_batch_def)
  have h2: "d_userId own_draw = userId wb_one" by (simp add: uid own_draw_def)
  note echo = whiteboard_echo_discarded
    [where p = own_batch and s = wb_one and q = own_draw and pen = 5 and er = 18]
  have "on_draw_batch 5 18 own_batch wb_one = wb_one" using echo h1 by blast
  moreover have "on_draw 5 18 own_draw wb_one = wb_one" using echo h2 by blast
  ultimately show ?thesis using h1 h2 store by simp
qed

section \<open>Clearing the whiteboard\<close>

text \<open>
  C3. The claim says that a clear empties the stroke log, so that a later repaint shows
  none of the cleared strokes. \<^verbatim>\<open>clearCanvas\<close> blanks the surface, requests the deletion
  on the server and broadcasts \<^verbatim>\<open>clear\<close>, but it never resets \<^verbatim>\<open>strokesStoreRef\<close>, and
  neither does the handler of an inbound \<^verbatim>\<open>clear\<close>. On a whiteboard holding one stroke,
  the log still holds the stroke after the clear, and the next \<^verbatim>\<open>setupCanvas\<close> (a
  resize) paints it again.
\<close>

theorem clearCanvas_keeps_stroke_log:
  "strokesStoreRef wb_one =
     [\<lparr>points = [\<lparr>p_type = Start, p_x = 10, p_y = 10\<rparr>, \<lparr>p_type = Move, p_x = 20, p_y = 20\<rparr>],
       color = ''#3ecf8e'', tool = Some Pen, size_px = Some 5\<rparr>]
   \<and> map_sum id painted (clearCanvas wb_one) = Inr []
   \<and> map_sum id sent (clearCanvas wb_one) = Inr (sent wb_one @ [Clear ''u1''])
   \<and> map_sum id strokesStoreRef (clearCanvas wb_one) = Inr (strokesStoreRef wb_one)
   \<and> map_sum id (\<lambda>s. painted (setupCanvas ''#3ecf8e'' 5 18 s)) (clearCanvas wb_one) =
       Inr [BeginPath, MoveTo 10 10, LineTo 20 20, Stroke SourceOver ''#3ecf8e'' 5]
   \<and> strokesStoreRef (on_clear wb_one) = strokesStoreRef wb_one"
  by (simp add: wb_one_def wb_defs)

section \<open>Late joiners\<close>

text \<open>
  C4, as stated, fails: no handler tests whether seeding has happened. On a freshly
  mounted whiteboard, not yet subscribed, with no history requested and an empty stroke
  store, a mouse-down sends a \<^verbatim>\<open>draw\<close> broadcast at once.
\<close>

theorem broadcast_before_seeding:
  "\<not> isConnected (wb_mounted ''u1'' ''1'')
   \<and> requests (wb_mounted ''u1'' ''1'') = []
   \<and> strokesStoreRef (wb_mounted ''u1'' ''1'') = []
   \<and> sent (wb_mounted ''u1'' ''1'') = []
   \<and> sent (startDrawing 10 10 (wb_mounted ''u1'' ''1'')) =
       [Draw \<lparr>d_userId = ''u1'', d_type = Start, d_x = 10, d_y = 10, d_color = ''#3ecf8e'',
              d_tool = Some Pen, d_size = Some 5\<rparr>]"
  by (simp add: wb_defs)

text \<open>
  C4, amended. Outgoing broadcasts are not gated on late-joiner seeding. A mouse-down
  sends one \<^verbatim>\<open>draw\<close> broadcast whenever a drawing context exists, a mouse-move sends one
  while a stroke is in progress, a flush sends one \<^verbatim>\<open>draw_batch\<close> whenever the buffer is
  not empty, and a time update emits a \<^verbatim>\<open>playback-update\<close> whenever the throttle interval
  has passed. None of these depends on \<^verbatim>\<open>isConnected\<close>, on \<^verbatim>\<open>isInitialSetup\<close> or on the
  stroke store, and the subscribe callback and the arrival of the history send nothing
  and enable nothing.
\<close>

theorem local_events_broadcast_ungated:
  "sent (startDrawing px py s) =
     (case contextRef s of None \<Rightarrow> sent s | Some c \<Rightarrow> sent s @ [draw_msg Start px py s])
   \<and> sent (draw px py s) =
     (if isDrawing s \<and> contextRef s \<noteq> None then sent s @ [draw_msg Move px py s] else sent s)
   \<and> sent (sendBatchedPoints s) =
     (if pointsBuffer s = [] then sent s
      else sent s @ [DrawBatch \<lparr>b_userId = userId s, b_points = pointsBuffer s,
                                b_color = currentColor s, b_tool = Some (currentTool s),
                                b_size = Some (tool_size s)\<rparr>])
   \<and> sent (startDrawing px py (s\<lparr>isConnected := conn, isInitialSetup := ini,
                                 strokesStoreRef := l\<rparr>)) =
       sent (startDrawing px py s)
   \<and> sent (on_subscribed s) = sent s
   \<and> sent (on_strokes_fetched pen er response s) = sent s
   \<and> emitted (handleLocalTimeUpdate now t r) =
     (if now - lastSentRef r < UPDATE_THROTTLE_MS then emitted r
      else emitted r @ [\<lparr>roomId = propRoomId r, video_url = effectiveUrl r, is_playing = True,
                         playback_time = t\<rparr>])"
  by (simp add: startDrawing_def draw_def sendBatchedPoints_def draw_msg_def tool_size_def
      on_subscribed_def on_strokes_fetched_def setCurrentColor_def seed_strokes_sent
      handleLocalTimeUpdate_def emit_update_def effectiveUrl_def Let_def split: option.splits)

section \<open>Playback: throttling of outgoing updates\<close>

text \<open>
  C5. A time update is broadcast only if at least \<open>UPDATE_THROTTLE_MS\<close> (1500 ms) have
  passed since the heartbeat recorded in \<^verbatim>\<open>lastSentRef\<close>, and is dropped otherwise; a
  broadcast heartbeat records its own time. Play, pause and seek are each broadcast at
  once, as one message, whatever \<^verbatim>\<open>lastSentRef\<close> holds, and leave it unchanged. Hence in
  every run of local events consecutive heartbeat broadcasts are at least 1500 ms apart
  (the first one from the initial \<^verbatim>\<open>lastSentRef\<close>), and the run emits one message per
  heartbeat that passes the throttle and one per play, pause or seek event.
\<close>

theorem heartbeat_throttled_actions_immediate:
  "emitted (handleLocalTimeUpdate now t s) =
     (if now - lastSentRef s < UPDATE_THROTTLE_MS then emitted s
      else emitted s @ [\<lparr>roomId = propRoomId s, video_url = effectiveUrl s, is_playing = True,
                         playback_time = t\<rparr>])
   \<and> lastSentRef (handleLocalTimeUpdate now t s) =
     (if now - lastSentRef s < UPDATE_THROTTLE_MS then lastSentRef s else now)
   \<and> emitted (handleLocalPlayPause playing t s) =
       emitted s @ [\<lparr>roomId = propRoomId s, video_url = effectiveUrl s, is_playing = playing,
                     playback_time = t\<rparr>]
   \<and> emitted (handleLocalSeek t s) =
       emitted s @ [\<lparr>roomId = propRoomId s, video_url = effectiveUrl s, is_playing = True,
                     playback_time = t\<rparr>]
   \<and> lastSentRef (handleLocalPlayPause playing t s) = lastSentRef s
   \<and> lastSentRef (handleLocalSeek t s) = lastSentRef s
   \<and> successively (\<lambda>a b. UPDATE_THROTTLE_MS \<le> b - a) (lastSentRef s # heartbeat_times evs s)
   \<and> length (emitted (local_run evs s)) =
       length (emitted s) + length (heartbeat_times evs s)
         + length (filter (\<lambda>e. \<not> is_heartbeat e) evs)"
proof -
  have steps:
    "emitted (handleLocalTimeUpdate now t s) =
       (if now - lastSentRef s < UPDATE_THROTTLE_MS then emitted s
        else emitted s @ [\<lparr>roomId = propRoomId s, video_url = effectiveUrl s, is_playing = True,
                           playback_time = t\<rparr>])"
    "lastSentRef (handleLocalTimeUpdate now t s) =
       (if now - lastSentRef s < UPDATE_THROTTLE_MS then lastSentRef s else now)"
    "emitted (handleLocalPlayPause playing t s) =
       emitted s @ [\<lparr>roomId = propRoomId s, video_url = effectiveUrl s, is_playing = playing,
                     playback_time = t\<rparr>]"
    "emitted (handleLocalSeek t s) =
       emitted s @ [\<lparr>roomId = propRoomId s, video_url = effectiveUrl s, is_playing = True,
                     playback_time = t\<rparr>]"
    "lastSentRef (handleLocalPlayPause playing t s) = lastSentRef s"
    "lastSentRef (handleLocalSeek t s) = lastSentRef s"
    by (simp_all add: handleLocalTimeUpdate_def handleLocalPlayPause_def handleLocalSeek_def
        emit_update_def effectiveUrl_def split: option.splits)
  show ?thesis
    using steps hb_chain [of s evs] run_emitted_length [of evs s] by blast
qed

section \<open>Playback: the pending seek\<close>

text \<open>
  C6. \<^verbatim>\<open>pendingSeekRef\<close> is one optional number, so it holds at most one target. While
  no control surface can report the time, each remote update stores its
  \<open>playback_time\<close> there and issues no seek, so a newer update overwrites an older one; an
  external seek without a usable \<open>seekTo\<close> is stored the same way. When controls with
  \<open>seekTo\<close> are registered while a target is buffered, exactly one seek to that target is
  issued and the buffer is emptied, so registering controls again issues nothing more.
  With an empty buffer, registering controls issues no seek.
\<close>

theorem pending_seek_single_slot:
  "(\<not> can_getCurrentTime (playerControlRef s) \<longrightarrow>
      pendingSeekRef (on_playback_update u2 (on_playback_update u1 s)) = Some (playback_time u2)
      \<and> calls (on_playback_update u1 s) =
          calls s @ (if can_setPlaying (playerControlRef s) then [SetPlaying (is_playing u1)]
                     else []))
   \<and> (\<not> can_seekTo (playerControlRef s) \<longrightarrow>
      pendingSeekRef (external_seek (Some t2) (external_seek (Some t1) s)) = Some t2)
   \<and> (pendingSeekRef s = Some t \<and> has_seekTo c \<longrightarrow>
      calls (setPlayerControls (Some c) s) = calls s @ [SeekTo t]
      \<and> pendingSeekRef (setPlayerControls (Some c) s) = None
      \<and> calls (setPlayerControls c' (setPlayerControls (Some c) s)) = calls s @ [SeekTo t])
   \<and> (pendingSeekRef s = None \<longrightarrow> calls (setPlayerControls c' s) = calls s)"
  by (simp add: setPlayerControls_def external_seek_def room_defs split: option.splits)

text \<open>
  Two updates (30 s, then 55 s) reach a player without controls: 55 is buffered. The
  controls arrive: one seek to 55. They are registered again: still that one seek.
\<close>

theorem pending_seek_single_slot_witness:
  "\<not> can_getCurrentTime (playerControlRef room_unready)
   \<and> \<not> can_seekTo (playerControlRef room_unready)
   \<and> pendingSeekRef (on_playback_update msg_b (on_playback_update msg_a room_unready)) = Some 55
   \<and> pendingSeekRef (external_seek (Some 8) (external_seek (Some 3) room_unready)) = Some 8
   \<and> has_seekTo exposeControls
   \<and> calls (setPlayerControls (Some exposeControls)
        (on_playback_update msg_b (on_playback_update msg_a room_unready))) = [SeekTo 55]
   \<and> calls (setPlayerControls (Some exposeControls) (setPlayerControls (Some exposeControls)
        (on_playback_update msg_b (on_playback_update msg_a room_unready)))) = [SeekTo 55]
   \<and> pendingSeekRef room0 = None
   \<and> calls (setPlayerControls (Some exposeControls) room0) = []"
  using pending_seek_single_slot [of room_unready msg_b msg_a 8 3 55 exposeControls "Some exposeControls"]
    pending_seek_single_slot [of "on_playback_update msg_b (on_playback_update msg_a room_unready)"
      msg_b msg_a 8 3 55 exposeControls "Some exposeControls"]
    pending_seek_single_slot [of room0 msg_b msg_a 8 3 55 exposeControls "Some exposeControls"]
  by (simp add: room_unready_def room0_def msg_a_def msg_b_def exposeControls_def room_defs)

section \<open>Whiteboard: replay of the stroke log\<close>

text \<open>
  C7. \<^verbatim>\<open>repaintAll\<close> replays the stroke log in insertion order. On a blank surface
  with a context its paint calls are, entry after entry in the order of the log: nothing
  for an entry without points; otherwise \<open>BeginPath\<close> and a \<open>MoveTo\<close> to the first point,
  then for each further point a new \<open>BeginPath\<close> and \<open>MoveTo\<close> if it is a \<open>Start\<close>, or a
  \<open>LineTo\<close> and a \<open>Stroke\<close> if it is a \<open>Move\<close>, the stroke painted with the entry's own
  tool, colour and size (the closure's size when the entry has none; an eraser paints in
  destination-out mode with the context's stroke style). These calls equal the
  concatenation of the calls that \<^verbatim>\<open>drawStroke\<close> makes for each entry. \<^verbatim>\<open>repaintAll\<close>
  changes neither the context settings nor the log, so a second invocation on a surface
  blanked again makes the same calls in the same order. After \<^verbatim>\<open>setupCanvas\<close>, which
  resets the context before repainting, the paint calls are the same for any two
  whiteboards that hold the same log. The last two conjuncts replay a log of three
  strokes.
\<close>

theorem repaintAll_replays_log_in_order:
  "painted (repaintAll pen er (s\<lparr>painted := []\<rparr>)) =
     concat (map (\<lambda>e. painted (drawStroke pen er (points e) (color e) (tool_or_pen (tool e))
                                  (size_px e) (s\<lparr>painted := []\<rparr>)))
                 (strokesStoreRef s))
   \<and> contextRef (repaintAll pen er s) = contextRef s
   \<and> strokesStoreRef (repaintAll pen er s) = strokesStoreRef s
   \<and> painted (repaintAll pen er ((repaintAll pen er (s\<lparr>painted := []\<rparr>))\<lparr>painted := []\<rparr>)) =
       painted (repaintAll pen er (s\<lparr>painted := []\<rparr>))
   \<and> painted (setupCanvas col pen er (s'\<lparr>canvasRef := True, strokesStoreRef := strokesStoreRef s\<rparr>)) =
       painted (setupCanvas col pen er (s\<lparr>canvasRef := True\<rparr>))
   \<and> painted (repaintAll pen er (s\<lparr>contextRef := Some c, painted := []\<rparr>)) =
       concat (map
         (\<lambda>e. case points e of
                [] \<Rightarrow> []
              | p # ps \<Rightarrow>
                  BeginPath # MoveTo (p_x p) (p_y p) #
                  concat (map
                    (\<lambda>q. if p_type q = Start then [BeginPath, MoveTo (p_x q) (p_y q)]
                         else if p_type q = Move
                         then [LineTo (p_x q) (p_y q),
                               if tool e = Some Eraser
                               then Stroke DestinationOut (strokeStyle c)
                                      (case size_px e of None \<Rightarrow> er | Some v \<Rightarrow> v)
                               else Stroke SourceOver (color e)
                                      (case size_px e of None \<Rightarrow> pen | Some v \<Rightarrow> v)]
                         else [])
                    ps))
         (strokesStoreRef s))
   \<and> painted (repaintAll pen er
        (s\<lparr>contextRef := Some c, painted := [],
           strokesStoreRef := [stroke_pen, stroke_eraser, stroke_old]\<rparr>)) =
       [BeginPath, MoveTo 1 2, LineTo 3 4, Stroke SourceOver ''#f43f5e'' 7,
        BeginPath, MoveTo 5 6, LineTo 7 8, Stroke DestinationOut (strokeStyle c) er,
        BeginPath, MoveTo 9 9, LineTo 0 1, Stroke DestinationOut (strokeStyle c) er,
        BeginPath, MoveTo 2 2, LineTo 4 4, Stroke SourceOver ''#60a5fa'' pen]
   \<and> painted (setupCanvas ''#3ecf8e'' 5 18
        (s\<lparr>canvasRef := True, strokesStoreRef := [stroke_eraser, stroke_pen]\<rparr>)) =
       [BeginPath, MoveTo 5 6, LineTo 7 8, Stroke DestinationOut ''#3ecf8e'' 18,
        BeginPath, MoveTo 9 9, LineTo 0 1, Stroke DestinationOut ''#3ecf8e'' 18,
        BeginPath, MoveTo 1 2, LineTo 3 4, Stroke SourceOver ''#f43f5e'' 7]"
proof -
  let ?t = "repaintAll pen er (s\<lparr>painted := []\<rparr>)"
  have again: "painted (repaintAll pen er (?t\<lparr>painted := []\<rparr>)) = painted ?t"
    by (rule repaintAll_blank_cong) (simp_all add: repaintAll_contextRef repaintAll_store)
  let ?fresh = "\<lparr>globalCompositeOperation = SourceOver, strokeStyle = col, lineWidth = 5\<rparr>"
  let ?a = "s'\<lparr>canvasRef := True, strokesStoreRef := strokesStoreRef s, contextRef := Some ?fresh\<rparr>"
  let ?b = "s\<lparr>canvasRef := True, contextRef := Some ?fresh\<rparr>"
  have "painted (repaintAll pen er (?a\<lparr>painted := []\<rparr>)) =
        painted (repaintAll pen er (?b\<lparr>painted := []\<rparr>))"
    by (rule repaintAll_blank_cong) simp_all
  then have resized: "painted (setupCanvas col pen er
          (s'\<lparr>canvasRef := True, strokesStoreRef := strokesStoreRef s\<rparr>)) =
       painted (setupCanvas col pen er (s\<lparr>canvasRef := True\<rparr>))"
    by (simp add: setupCanvas_def)
  have explicit: "painted (repaintAll pen er (s\<lparr>contextRef := Some c, painted := []\<rparr>)) =
       concat (map
         (\<lambda>e. case points e of
                [] \<Rightarrow> []
              | p # ps \<Rightarrow>
                  BeginPath # MoveTo (p_x p) (p_y p) #
                  concat (map
                    (\<lambda>q. if p_type q = Start then [BeginPath, MoveTo (p_x q) (p_y q)]
                         else if p_type q = Move
                         then [LineTo (p_x q) (p_y q),
                               if tool e = Some Eraser
                               then Stroke DestinationOut (strokeStyle c)
                                      (case size_px e of None \<Rightarrow> er | Some v \<Rightarrow> v)
                               else Stroke SourceOver (color e)
                                      (case size_px e of None \<Rightarrow> pen | Some v \<Rightarrow> v)]
                         else [])
                    ps))
         (strokesStoreRef s))"
    using repaintAll_blank [of pen er "s\<lparr>contextRef := Some c\<rparr>"]
    by (simp add: drawStroke_blank_explicit)
  have three: "painted (repaintAll pen er
        (s\<lparr>contextRef := Some c, painted := [],
           strokesStoreRef := [stroke_pen, stroke_eraser, stroke_old]\<rparr>)) =
       [BeginPath, MoveTo 1 2, LineTo 3 4, Stroke SourceOver ''#f43f5e'' 7,
        BeginPath, MoveTo 5 6, LineTo 7 8, Stroke DestinationOut (strokeStyle c) er,
        BeginPath, MoveTo 9 9, LineTo 0 1, Stroke DestinationOut (strokeStyle c) er,
        BeginPath, MoveTo 2 2, LineTo 4 4, Stroke SourceOver ''#60a5fa'' pen]"
    by (simp add: repaintAll_def drawStroke_def apply_tool_def tool_or_pen_def size_or_def
        Let_def stroke_pen_def stroke_eraser_def stroke_old_def)
  have two: "painted (setupCanvas ''#3ecf8e'' 5 18
        (s\<lparr>canvasRef := True, strokesStoreRef := [stroke_eraser, stroke_pen]\<rparr>)) =
       [BeginPath, MoveTo 5 6, LineTo 7 8, Stroke DestinationOut ''#3ecf8e'' 18,
        BeginPath, MoveTo 9 9, LineTo 0 1, Stroke DestinationOut ''#3ecf8e'' 18,
        BeginPath, MoveTo 1 2, LineTo 3 4, Stroke SourceOver ''#f43f5e'' 7]"
    by (simp add: setupCanvas_def repaintAll_def drawStroke_def apply_tool_def tool_or_pen_def
        size_or_def Let_def stroke_pen_def stroke_eraser_def)
  show ?thesis
    using repaintAll_blank [of pen er s] repaintAll_contextRef [of pen er s]
      repaintAll_store [of pen er s] again resized explicit three two
    by blast
qed

section \<open>Whiteboard: context settings around a paint\<close>

text \<open>
  C8, as stated, fails for a local stroke. On a fresh canvas (line width 5) a local
  eraser stroke leaves the line width at the eraser's 18 after \<^verbatim>\<open>stopDrawing\<close>.
\<close>

theorem local_stroke_keeps_tool_width:
  "map_option lineWidth (contextRef (wb_mounted ''u1'' ''1'')) = Some 5
   \<and> map_option lineWidth
       (contextRef (stopDrawing (draw 20 20 (startDrawing 10 10
          ((wb_mounted ''u1'' ''1'')\<lparr>currentTool := Eraser\<rparr>))))) = Some 18"
  by (simp add: wb_defs)

text \<open>
  C8, amended. \<^verbatim>\<open>drawStroke\<close> (remote batches, seeding of the history, repaint) and the
  handler of a remote per-point \<^verbatim>\<open>draw\<close> leave the context's compositing mode, stroke
  colour and line width as they were before the call; an eraser batch painted on a
  source-over context therefore leaves it source-over. A local stroke is not restored:
  the part of \<^verbatim>\<open>stopDrawing\<close> before its persistence request leaves the context as the
  local tool set it, and after a complete local stroke (mouse down, any number of mouse
  moves, \<^verbatim>\<open>stopDrawing\<close> run to its end) the compositing mode is source-over, the line
  width is the size of the local tool, and the stroke colour is the local colour for the
  pen and the colour the context had before for the eraser.
\<close>

theorem drawStroke_restores_context:
  "contextRef (drawStroke pen er pts col tk sz s) = contextRef s
   \<and> contextRef (on_draw_batch pen er p s) = contextRef s
   \<and> contextRef (on_draw pen er q s) = contextRef s
   \<and> contextRef (repaintAll pen er s) = contextRef s
   \<and> map_option globalCompositeOperation
       (contextRef (drawStroke pen er pts col Eraser sz
          (s\<lparr>contextRef := Some (c\<lparr>globalCompositeOperation := SourceOver\<rparr>)\<rparr>))) =
       Some SourceOver
   \<and> contextRef (stopDrawing_start s) = contextRef s
   \<and> map_option globalCompositeOperation (contextRef (stopDrawing s)) =
       map_option (\<lambda>c. SourceOver) (contextRef s)
   \<and> map_option lineWidth (contextRef (stopDrawing (startDrawing px py s))) =
       map_option (\<lambda>c. tool_size s) (contextRef s)
   \<and> contextRef (stopDrawing (draws ms (startDrawing px py s))) =
       map_option
         (\<lambda>c. \<lparr>globalCompositeOperation = SourceOver,
                strokeStyle = (if currentTool s = Eraser then strokeStyle c else currentColor s),
                lineWidth = tool_size s\<rparr>)
         (contextRef s)
   \<and> map_option strokeStyle
       (contextRef (stopDrawing (draws ms (startDrawing px py (s\<lparr>currentTool := Pen\<rparr>))))) =
       map_option (\<lambda>c. currentColor s) (contextRef s)
   \<and> map_option lineWidth (contextRef (stopDrawing (draws ms (startDrawing px py s)))) =
       map_option (\<lambda>c. tool_size s) (contextRef s)"
proof -
  have a: "contextRef (on_draw_batch pen er p s) = contextRef s"
    by (simp add: on_draw_batch_def Let_def drawStroke_contextRef)
  have b: "contextRef (on_draw pen er q s) = contextRef s"
    by (simp add: on_draw_def apply_tool_def Let_def split: option.splits)
  have c: "map_option globalCompositeOperation
       (contextRef (drawStroke pen er pts col Eraser sz
          (s\<lparr>contextRef := Some (c\<lparr>globalCompositeOperation := SourceOver\<rparr>)\<rparr>))) =
       Some SourceOver"
    by (simp add: drawStroke_contextRef)
  have d: "contextRef (stopDrawing_start s) = contextRef s"
    by (simp add: stopDrawing_start_def sendBatchedPoints_def Let_def)
  have e: "map_option globalCompositeOperation (contextRef (stopDrawing s)) =
       map_option (\<lambda>c. SourceOver) (contextRef s)"
    by (cases "contextRef s") (simp_all add: stopDrawing_contextRef)
  have f: "map_option lineWidth (contextRef (stopDrawing (startDrawing px py s))) =
       map_option (\<lambda>c. tool_size s) (contextRef s)"
    using local_stroke_contextRef [of "[]" px py s]
    by (cases "contextRef s") simp_all
  have g: "map_option strokeStyle
       (contextRef (stopDrawing (draws ms (startDrawing px py (s\<lparr>currentTool := Pen\<rparr>))))) =
       map_option (\<lambda>c. currentColor s) (contextRef s)"
    by (cases "contextRef s") (simp_all add: local_stroke_contextRef)
  have h: "map_option lineWidth (contextRef (stopDrawing (draws ms (startDrawing px py s)))) =
       map_option (\<lambda>c. tool_size s) (contextRef s)"
    by (cases "contextRef s") (simp_all add: local_stroke_contextRef)
  show ?thesis
    using a b c d e f g h drawStroke_contextRef [of pen er pts col tk sz s]
      repaintAll_contextRef [of pen er s] local_stroke_contextRef [of ms px py s]
    by blast
qed

section \<open>Playback: the flag sent with a local seek\<close>

text \<open>
  C9. The message emitted for a local seek carries \<open>is_playing = True\<close> whatever the state
  of the local player. A receiver whose control surface has \<open>setPlaying\<close> applies it:
  its last control call is \<open>SetPlaying True\<close> and its VideoPlayer's \<^verbatim>\<open>isPlaying\<close> becomes
  true. Its media starts playing, also when sender and receiver were both paused: the
  \<^verbatim>\<open><video>\<close> when there is no YouTube player object, the YouTube player when it is
  ready. A YouTube player object that is not ready yet is left as it is, and so is the
  playing state of a \<^verbatim>\<open><video>\<close> beside it.
\<close>

theorem local_seek_announces_playing:
  "emitted (handleLocalSeek t s) =
     emitted s @ [\<lparr>roomId = propRoomId s, video_url = effectiveUrl s, is_playing = True,
                   playback_time = t\<rparr>]
   \<and> is_playing (last (emitted (handleLocalSeek t s)))
   \<and> (can_setPlaying (playerControlRef r) \<longrightarrow>
        last (calls (on_playback_update (last (emitted (handleLocalSeek t s))) r)) =
          SetPlaying True
        \<and> isPlayingState (player (on_playback_update (last (emitted (handleLocalSeek t s))) r))
        \<and> (playerRef (player r) = None \<longrightarrow>
             map_option paused
               (html5Ref (player (on_playback_update (last (emitted (handleLocalSeek t s))) r))) =
             map_option (\<lambda>m. False) (html5Ref (player r)))
        \<and> (yt_method (player r) \<longrightarrow>
             map_option (\<lambda>y. paused (yt_media y))
               (playerRef (player (on_playback_update (last (emitted (handleLocalSeek t s))) r))) =
             map_option (\<lambda>y. False) (playerRef (player r)))
        \<and> (playerRef (player r) \<noteq> None \<and> \<not> yt_method (player r) \<longrightarrow>
             playerRef (player (on_playback_update (last (emitted (handleLocalSeek t s))) r)) =
               playerRef (player r)
             \<and> map_option paused
                 (html5Ref (player (on_playback_update (last (emitted (handleLocalSeek t s))) r))) =
                 map_option paused (html5Ref (player r))))"
proof -
  let ?m = "\<lparr>roomId = propRoomId s, video_url = effectiveUrl s, is_playing = True,
             playback_time = t\<rparr>"
  have sent: "emitted (handleLocalSeek t s) = emitted s @ [?m]"
    by (simp add: handleLocalSeek_def emit_update_def)
  then have msg: "last (emitted (handleLocalSeek t s)) = ?m" by simp
  let ?r' = "on_playback_update ?m r"
  have recv: "last (calls ?r') = SetPlaying True
      \<and> isPlayingState (player ?r')
      \<and> (playerRef (player r) = None \<longrightarrow>
           map_option paused (html5Ref (player ?r')) = map_option (\<lambda>m. False) (html5Ref (player r)))
      \<and> (yt_method (player r) \<longrightarrow>
           map_option (\<lambda>y. paused (yt_media y)) (playerRef (player ?r')) =
           map_option (\<lambda>y. False) (playerRef (player r)))
      \<and> (playerRef (player r) \<noteq> None \<and> \<not> yt_method (player r) \<longrightarrow>
           playerRef (player ?r') = playerRef (player r)
           \<and> map_option paused (html5Ref (player ?r')) = map_option paused (html5Ref (player r)))"
    if "can_setPlaying (playerControlRef r)"
    using that
    by (cases "playerRef (player r)"; cases "html5Ref (player r)")
      (simp_all add: room_defs vp_defs)
  show ?thesis using sent msg recv by simp
qed

text \<open>
  A paused sender seeks to 10.2 s; a paused receiver at 10 s gets the message: no
  corrective seek (the drift is 0.2 s), and the receiver's \<^verbatim>\<open><video>\<close> starts playing.
  A receiver on a ready, paused YouTube player starts playing as well. A receiver whose
  YouTube player does not exist yet gets the same call and has no media to play.
\<close>

theorem local_seek_announces_playing_witness:
  "html5Ref (player room0) = Some \<lparr>currentTime = 10, paused = True\<rparr>
   \<and> playerRef (player room0) = None
   \<and> can_setPlaying (playerControlRef room0)
   \<and> is_playing (last (emitted (handleLocalSeek 10.2 room0)))
   \<and> html5Ref (player (on_playback_update (last (emitted (handleLocalSeek 10.2 room0))) room0)) =
       Some \<lparr>currentTime = 10, paused = False\<rparr>
   \<and> calls (on_playback_update (last (emitted (handleLocalSeek 10.2 room0))) room0) =
       [SetPlaying True]
   \<and> yt_method (player room_yt)
   \<and> map_option (\<lambda>y. paused (yt_media y))
       (playerRef (player (on_playback_update (last (emitted (handleLocalSeek 10.2 room0))) room_yt))) =
       Some False
   \<and> can_setPlaying (playerControlRef room_loading)
   \<and> calls (on_playback_update (last (emitted (handleLocalSeek 10.2 room0))) room_loading) =
       [SeekTo 10.2, SetPlaying True]
   \<and> html5Ref (player (on_playback_update (last (emitted (handleLocalSeek 10.2 room0)))
        room_loading)) = None"
  using local_seek_announces_playing [where t = "10.2" and s = room0 and r = room0]
    local_seek_announces_playing [where t = "10.2" and s = room0 and r = room_yt]
    local_seek_announces_playing [where t = "10.2" and s = room0 and r = room_loading]
  by (simp add: room0_def room_yt_def room_loading_def exposeControls_def handleLocalSeek_def
      emit_update_def room_defs vp_defs SEEK_THRESHOLD_def)

section \<open>Whiteboard: the first point of a batch\<close>

text \<open>
  C10. \<^verbatim>\<open>drawStroke\<close> with an empty point list changes nothing. With a non-empty list
  and a drawing context its first two calls are \<open>BeginPath\<close> and a \<open>MoveTo\<close> to the first
  point, whatever the kind of that point. The calls of the painting loop therefore never
  contain a \<open>LineTo\<close> without a current point, whether or not the path had one before.
\<close>

theorem drawStroke_starts_subpath_at_first_point:
  "drawStroke pen er [] col tk sz s = s
   \<and> painted (drawStroke pen er (p # ps) col tk sz (s\<lparr>contextRef := Some c\<rparr>)) =
       painted s @ BeginPath # MoveTo (p_x p) (p_y p)
         # draw_points False (apply_tool pen er col tk sz c) ps
   \<and> path_ok has (draw_points True c pts)"
proof -
  have "path_ok has (draw_points True c pts)"
    by (cases pts) (simp_all add: path_ok_draw_points_False)
  then show ?thesis
    by (simp add: drawStroke_def Let_def split: option.splits)
qed

end
